theory Spec2Isabelle
  imports Complex_Main
begin

section \<open>Configuration (config.py)\<close>

text \<open>
  The dataclass \<open>Config\<close>. Only the fields that the modelled code reads are kept: the
  two poll intervals and the wake flag (sleep_tracker.py) and the path of the credential
  file (tesla_auth.py). The URLs and client identifiers only end up inside outgoing
  requests, whose outcome is scripted by the environment below.
\<close>

record config =
  poll_interval_seconds :: int
  sleep_poll_interval_seconds :: int
  wake_on_poll :: bool
  token_file_path :: string

section \<open>The sleep tracker (sleep_tracker.py)\<close>

text \<open>
  The three attributes of \<open>SleepTracker\<close>. The vehicle state is a free-form Python
  string, the error counter an unbounded Python int.
\<close>

record tracker =
  last_known_state :: string
  last_data_fetch :: real
  consecutive_errors :: int

definition new_tracker :: tracker where
  "new_tracker =
     \<lparr>last_known_state = ''unknown'', last_data_fetch = 0, consecutive_errors = 0\<rparr>"

text \<open>\<open>update_state\<close>: the comparison only decides whether a line is logged.\<close>

definition update_state :: "string \<Rightarrow> tracker \<Rightarrow> tracker" where
  "update_state state t = t\<lparr>last_known_state := state, consecutive_errors := 0\<rparr>"

definition record_error :: "tracker \<Rightarrow> tracker" where
  "record_error t = t\<lparr>consecutive_errors := consecutive_errors t + 1\<rparr>"

definition record_successful_fetch :: "real \<Rightarrow> tracker \<Rightarrow> tracker" where
  "record_successful_fetch now t = t\<lparr>last_data_fetch := now\<rparr>"

definition should_fetch_data :: "config \<Rightarrow> string \<Rightarrow> bool" where
  "should_fetch_data cfg current_state =
     (if current_state = ''online'' then True
      else if current_state = ''asleep'' then (if wake_on_poll cfg then True else False)
      else if current_state = ''offline'' then False
      else False)"

definition get_poll_interval :: "config \<Rightarrow> tracker \<Rightarrow> int" where
  "get_poll_interval cfg t =
     (if consecutive_errors t \<ge> 5
      then max (poll_interval_seconds cfg) (sleep_poll_interval_seconds cfg)
      else if last_known_state t \<in> set [''asleep'', ''offline'', ''unknown'']
      then sleep_poll_interval_seconds cfg
      else poll_interval_seconds cfg)"

section \<open>Python values, exceptions and the environment\<close>

text \<open>
  JSON documents and the Python values built from them. \<open>JNull\<close> is Python's
  \<open>None\<close>. A \<open>dict\<close> is an association list in insertion order, read with
  \<open>map_of\<close>.
\<close>

datatype jval =
    JNull
  | JBool bool
  | JNum real
  | JStr string
  | JArr "jval list"
  | JObj "(string \<times> jval) list"

type_synonym dict = "(string \<times> jval) list"

text \<open>The exceptions that leave the modelled functions.\<close>

datatype exn = OSError | UnboundLocalError | KeyError string | TypeError | ValueError

text \<open>
  Arithmetic on a value: numbers, and booleans as 0 and 1, take part; on anything else
  Python raises \<open>TypeError\<close>, here \<open>None\<close>.
\<close>

fun as_number :: "jval \<Rightarrow> real option" where
  "as_number (JNum x) = Some x"
| "as_number (JBool b) = Some (if b then 1 else 0)"
| "as_number _ = None"

text \<open>\<open>d.get(k, default)\<close>.\<close>

definition dict_get :: "dict \<Rightarrow> string \<Rightarrow> jval \<Rightarrow> jval" where
  "dict_get d k dflt = (case map_of d k of None \<Rightarrow> dflt | Some v \<Rightarrow> v)"

text \<open>
  An HTTP exchange either yields a response or raises \<open>requests.RequestException\<close>.
  Of a response the code reads the status, the body through \<open>resp.json()\<close> (\<open>None\<close>
  when the text is not JSON) and the Retry-After header through \<open>int(...)\<close>.
\<close>

datatype retry_after_header = NoRetryAfter | RetryAfterInt int | RetryAfterBad

record response =
  status_code :: int
  body :: "jval option"
  retry_after :: retry_after_header

datatype http_outcome = Response response | RequestException

text \<open>
  The credential file holds either a JSON object, represented by the value
  \<open>json.load\<close> yields for it, or text that \<open>json.load\<close> rejects (an empty or a
  partly written file). \<open>_token_data\<close> is annotated \<open>dict | None\<close>; documents whose
  top level is not an object are outside the embedding.
\<close>

datatype fcontent = JsonDoc dict | Undecodable

datatype io_op = OpMakedirs | OpMkstemp | OpWrite | OpReplace | OpUnlink | OpOpen

datatype sleep_site = RefreshBackoff | RequestBackoff | RateLimitWait

text \<open>
  What the program does to the outside, in order: entering \<open>refresh_access_token\<close>,
  a POST to the token endpoint (with the refresh token sent), an API request (with the
  bearer token sent) and a \<open>time.sleep\<close> (with its call site and duration).
\<close>

datatype event =
    EvRefreshCall
  | EvTokenPost jval
  | EvApiRequest jval
  | EvSleep sleep_site real

text \<open>
  The state threaded through the code: the attribute \<open>_token_data\<close> of \<open>TeslaAuth\<close>
  and the environment. \<open>time.time()\<close> reads \<open>clock\<close>, which \<open>time.sleep\<close>
  advances. \<open>auth_net\<close> and \<open>api_net\<close> script the outcomes of the coming exchanges with
  the token endpoint and with the API; an exhausted script is a transport failure.
  \<open>files\<close> is the file system, \<open>io_faults\<close> the file operations that raise
  \<open>OSError\<close>, \<open>tmp_path\<close> the name \<open>mkstemp\<close> hands out next.
\<close>

record world =
  token_data :: "dict option"
  clock :: real
  auth_net :: "http_outcome list"
  api_net :: "http_outcome list"
  files :: "string \<rightharpoonup> fcontent"
  io_faults :: "io_op set"
  tmp_path :: string
  trace :: "event list"

definition emit :: "event \<Rightarrow> world \<Rightarrow> world" where
  "emit e w = w\<lparr>trace := trace w @ [e]\<rparr>"

definition time_sleep :: "sleep_site \<Rightarrow> real \<Rightarrow> world \<Rightarrow> world" where
  "time_sleep site d w = emit (EvSleep site d) (w\<lparr>clock := clock w + d\<rparr>)"

text \<open>\<open>requests.post(url, json=payload, timeout=30)\<close> to the token endpoint.\<close>

definition requests_post :: "jval \<Rightarrow> world \<Rightarrow> http_outcome \<times> world" where
  "requests_post rt w =
     (case auth_net w of
        [] \<Rightarrow> (RequestException, emit (EvTokenPost rt) w)
      | x # xs \<Rightarrow> (x, emit (EvTokenPost rt) (w\<lparr>auth_net := xs\<rparr>)))"

text \<open>\<open>self._session.request(method, url, headers=headers, timeout=30)\<close>.\<close>

definition session_request :: "jval \<Rightarrow> world \<Rightarrow> http_outcome \<times> world" where
  "session_request token w =
     (case api_net w of
        [] \<Rightarrow> (RequestException, emit (EvApiRequest token) w)
      | x # xs \<Rightarrow> (x, emit (EvApiRequest token) (w\<lparr>api_net := xs\<rparr>)))"

section \<open>The credential manager (tesla_auth.py)\<close>

text \<open>The property \<open>is_token_valid\<close>.\<close>

definition is_token_valid :: "world \<Rightarrow> exn + bool" where
  "is_token_valid w =
     (case token_data w of
        None \<Rightarrow> Inr False
      | Some td \<Rightarrow>
          (case as_number (dict_get td ''expires_at'' (JNum 0)) of
             None \<Rightarrow> Inl TypeError
           | Some expires_at \<Rightarrow> Inr (clock w < expires_at - 300)))"

text \<open>\<open>os.unlink(tmp_path)\<close> inside \<open>try ... except OSError: pass\<close>.\<close>

definition unlink_quietly :: "string \<Rightarrow> world \<Rightarrow> world" where
  "unlink_quietly p w =
     (if OpUnlink \<in> io_faults w then w else w\<lparr>files := (files w)(p := None)\<rparr>)"

text \<open>
  \<open>save_token\<close>. \<open>os.makedirs\<close> stands before the \<open>try\<close>. When \<open>mkstemp\<close> itself
  raises, the handler reads the unbound local \<open>tmp_path\<close>, and the
  \<open>UnboundLocalError\<close> of that read is what leaves the function. \<open>mkstemp\<close> creates
  the file empty; a failed write leaves it partly written.
\<close>

definition save_token :: "config \<Rightarrow> dict \<Rightarrow> world \<Rightarrow> (exn + unit) \<times> world" where
  "save_token cfg td w =
     (let path = token_file_path cfg in
      if OpMakedirs \<in> io_faults w then (Inl OSError, w)
      else if OpMkstemp \<in> io_faults w then (Inl UnboundLocalError, w)
      else
        let tmp = tmp_path w;
            w1 = w\<lparr>files := (files w)(tmp \<mapsto> Undecodable)\<rparr>
        in
        if OpWrite \<in> io_faults w1 then (Inl OSError, unlink_quietly tmp w1)
        else
          let w2 = w1\<lparr>files := (files w1)(tmp \<mapsto> JsonDoc td)\<rparr> in
          if OpReplace \<in> io_faults w2 then (Inl OSError, unlink_quietly tmp w2)
          else
            (Inr (),
             w2\<lparr>files := ((files w2)(tmp := None))(path \<mapsto> JsonDoc td),
                token_data := Some td\<rparr>))"


text \<open>
  The record built from a 200 response in \<open>refresh_access_token\<close>: the two subscripts
  raise \<open>KeyError\<close> on a missing key and \<open>TypeError\<close> on a body that is not an
  object; the sum with \<open>expires_in\<close> raises \<open>TypeError\<close> on a non-number.
\<close>

definition new_token_data :: "jval \<Rightarrow> real \<Rightarrow> exn + dict" where
  "new_token_data data now =
     (case data of
        JObj d \<Rightarrow>
          (case map_of d ''access_token'' of
             None \<Rightarrow> Inl (KeyError ''access_token'')
           | Some atok \<Rightarrow>
               (case map_of d ''refresh_token'' of
                  None \<Rightarrow> Inl (KeyError ''refresh_token'')
                | Some rt \<Rightarrow>
                    (case as_number (dict_get d ''expires_in'' (JNum 3600)) of
                       None \<Rightarrow> Inl TypeError
                     | Some n \<Rightarrow>
                         Inr [(''access_token'', atok),
                              (''refresh_token'', rt),
                              (''expires_at'', JNum (now + n)),
                              (''token_type'', dict_get d ''token_type'' (JStr ''Bearer'')),
                              (''created_at'', JNum now)])))
      | _ \<Rightarrow> Inl TypeError)"

text \<open>
  The \<open>try\<close> block of one iteration of the refresh loop: \<open>Some r\<close> when the iteration
  leaves the function (returning after the save, or raising), \<open>None\<close> when the attempt
  failed and the loop goes on. \<open>resp.json()\<close> on a body that is not JSON raises
  \<open>requests.JSONDecodeError\<close>, a \<open>RequestException\<close>, which the \<open>except\<close> catches.
\<close>

definition refresh_attempt :: "config \<Rightarrow> jval \<Rightarrow> world \<Rightarrow> (exn + unit) option \<times> world" where
  "refresh_attempt cfg rt w =
     (case requests_post rt w of
        (Response resp, w1) \<Rightarrow>
          if status_code resp = 200 then
            (case body resp of
               None \<Rightarrow> (None, w1)
             | Some data \<Rightarrow>
                 (case new_token_data data (clock w1) of
                    Inl e \<Rightarrow> (Some (Inl e), w1)
                  | Inr td \<Rightarrow>
                      (case save_token cfg td w1 of (r, w2) \<Rightarrow> (Some r, w2))))
          else (None, w1)
      | (RequestException, w1) \<Rightarrow> (None, w1))"

definition refresh_max_retries :: int where
  "refresh_max_retries = 5"

text \<open>
  \<open>for attempt in range(max_retries)\<close>, as recursion over the attempt numbers still to
  run; the empty list is the code after the loop.
\<close>

fun refresh_loop :: "config \<Rightarrow> jval \<Rightarrow> nat list \<Rightarrow> int \<Rightarrow> world \<Rightarrow> (exn + unit) \<times> world" where
  "refresh_loop cfg rt [] backoff w = (Inr (), w\<lparr>token_data := None\<rparr>)"
| "refresh_loop cfg rt (attempt # rest) backoff w =
     (case refresh_attempt cfg rt w of
        (Some r, w1) \<Rightarrow> (r, w1)
      | (None, w1) \<Rightarrow>
          if int attempt < refresh_max_retries - 1
          then refresh_loop cfg rt rest (backoff * 2)
                 (time_sleep RefreshBackoff (real_of_int (min backoff 60)) w1)
          else refresh_loop cfg rt rest backoff w1)"

definition refresh_access_token :: "config \<Rightarrow> world \<Rightarrow> (exn + unit) \<times> world" where
  "refresh_access_token cfg w =
     (let w0 = emit EvRefreshCall w in
      case token_data w0 of
        None \<Rightarrow> (Inr (), w0)
      | Some td \<Rightarrow>
          (case map_of td ''refresh_token'' of
             None \<Rightarrow> (Inr (), w0)
           | Some rt \<Rightarrow> refresh_loop cfg rt [0..<nat refresh_max_retries] 1 w0))"

text \<open>
  The property \<open>access_token\<close>; \<open>JNull\<close> is the \<open>None\<close> it returns. The last line
  tests the truth value of the dict, so an empty dict gives \<open>None\<close>.
\<close>

definition access_token :: "config \<Rightarrow> world \<Rightarrow> (exn + jval) \<times> world" where
  "access_token cfg w =
     (case token_data w of
        None \<Rightarrow> (Inr JNull, w)
      | Some _ \<Rightarrow>
          (case is_token_valid w of
             Inl e \<Rightarrow> (Inl e, w)
           | Inr valid \<Rightarrow>
               (case (if \<not> valid then refresh_access_token cfg w else (Inr (), w)) of
                  (Inl e, w1) \<Rightarrow> (Inl e, w1)
                | (Inr _, w1) \<Rightarrow>
                    (Inr (case token_data w1 of
                            None \<Rightarrow> JNull
                          | Some td \<Rightarrow>
                              if td = [] then JNull
                              else dict_get td ''access_token'' JNull),
                     w1))))"

section \<open>The API client (tesla_client.py)\<close>

definition request_max_retries :: int where
  "request_max_retries = 3"

text \<open>
  \<open>if attempt < max_retries - 1: time.sleep(min(backoff, 60)); backoff *= 2\<close>, which
  the source has twice: after a status of 500 or more and in the \<open>except\<close> branch.
\<close>

definition request_backoff :: "nat \<Rightarrow> int \<Rightarrow> world \<Rightarrow> int \<times> world" where
  "request_backoff attempt backoff w =
     (if int attempt < request_max_retries - 1
      then (backoff * 2, time_sleep RequestBackoff (real_of_int (min backoff 60)) w)
      else (backoff, w))"

text \<open>
  \<open>_request\<close>: the loop over \<open>range(max_retries)\<close>, the empty list being the code
  after the loop. The result \<open>JNull\<close> is the \<open>None\<close> of the source. A 200 whose body
  is not JSON raises inside the \<open>try\<close> and is handled by the \<open>except\<close> branch. An
  exception of \<open>refresh_access_token\<close> is no \<open>RequestException\<close> and leaves the
  function, as do the \<open>ValueError\<close> of \<open>int(...)\<close> on a malformed Retry-After and
  that of \<open>time.sleep\<close> on a negative one.
\<close>

fun request_loop :: "config \<Rightarrow> nat list \<Rightarrow> int \<Rightarrow> world \<Rightarrow> (exn + jval) \<times> world" where
  "request_loop cfg [] backoff w = (Inr JNull, w)"
| "request_loop cfg (attempt # rest) backoff w =
     (case access_token cfg w of
        (Inl e, w1) \<Rightarrow> (Inl e, w1)
      | (Inr token, w1) \<Rightarrow>
          if token = JNull then (Inr JNull, w1)
          else
            (case session_request token w1 of
               (Response resp, w2) \<Rightarrow>
                 if status_code resp = 200 then
                   (case body resp of
                      Some data \<Rightarrow> (Inr data, w2)
                    | None \<Rightarrow>
                        (case request_backoff attempt backoff w2 of
                           (b, w3) \<Rightarrow> request_loop cfg rest b w3))
                 else if status_code resp = 401 \<and> attempt = 0 then
                   (case refresh_access_token cfg w2 of
                      (Inl e, w3) \<Rightarrow> (Inl e, w3)
                    | (Inr _, w3) \<Rightarrow> request_loop cfg rest backoff w3)
                 else if status_code resp = 408 then (Inr JNull, w2)
                 else if status_code resp = 429 then
                   (case retry_after resp of
                      RetryAfterBad \<Rightarrow> (Inl ValueError, w2)
                    | NoRetryAfter \<Rightarrow>
                        request_loop cfg rest backoff (time_sleep RateLimitWait 30 w2)
                    | RetryAfterInt n \<Rightarrow>
                        if n < 0 then (Inl ValueError, w2)
                        else request_loop cfg rest backoff
                               (time_sleep RateLimitWait (real_of_int n) w2))
                 else if status_code resp \<ge> 500 then
                   (case request_backoff attempt backoff w2 of
                      (b, w3) \<Rightarrow> request_loop cfg rest b w3)
                 else (Inr JNull, w2)
             | (RequestException, w2) \<Rightarrow>
                 (case request_backoff attempt backoff w2 of
                    (b, w3) \<Rightarrow> request_loop cfg rest b w3)))"

definition request :: "config \<Rightarrow> world \<Rightarrow> (exn + jval) \<times> world" where
  "request cfg w = request_loop cfg [0..<nat request_max_retries] 1 w"

text \<open>Counting events of the trace.\<close>

fun is_refresh_call :: "event \<Rightarrow> bool" where
  "is_refresh_call EvRefreshCall = True"
| "is_refresh_call _ = False"

fun is_api_request :: "event \<Rightarrow> bool" where
  "is_api_request (EvApiRequest _) = True"
| "is_api_request _ = False"

definition refresh_calls :: "world \<Rightarrow> nat" where
  "refresh_calls w = length (filter is_refresh_call (trace w))"

definition api_requests :: "world \<Rightarrow> nat" where
  "api_requests w = length (filter is_api_request (trace w))"

text \<open>The durations slept at one call site, in order.\<close>

fun sleeps_at :: "sleep_site \<Rightarrow> event list \<Rightarrow> real list" where
  "sleeps_at site [] = []"
| "sleeps_at site (EvSleep s d # es) =
     (if s = site then d # sleeps_at site es else sleeps_at site es)"
| "sleeps_at site (_ # es) = sleeps_at site es"

text \<open>
  An exchange with the token endpoint that the refresh loop counts as a failed attempt: a
  transport failure, a status other than 200, or a 200 whose body is not JSON.
\<close>

fun failed_attempt :: "http_outcome \<Rightarrow> bool" where
  "failed_attempt RequestException = True"
| "failed_attempt (Response r) = (status_code r \<noteq> 200 \<or> body r = None)"

section \<open>A concrete configuration and world\<close>

definition example_config :: config where
  "example_config =
     \<lparr>poll_interval_seconds = 300, sleep_poll_interval_seconds = 660,
      wake_on_poll = False, token_file_path = ''/data/tokens/token.json''\<rparr>"

definition example_token :: dict where
  "example_token =
     [(''access_token'', JStr ''at0''), (''refresh_token'', JStr ''rt0''),
      (''expires_at'', JNum 5000), (''token_type'', JStr ''Bearer''),
      (''created_at'', JNum 1000)]"

text \<open>
  A process holding \<open>example_token\<close> at time 1000, the same record on disk, no file
  operation failing and both networks unreachable.
\<close>

definition example_world :: world where
  "example_world =
     \<lparr>token_data = Some example_token, clock = 1000, auth_net = [], api_net = [],
      files = [''/data/tokens/token.json'' \<mapsto> JsonDoc example_token],
      io_faults = {}, tmp_path = ''/data/tokens/tmpk3v9.tmp'', trace = []\<rparr>"

definition no_refresh_token :: dict where
  "no_refresh_token = [(''access_token'', JStr ''at0''), (''expires_at'', JNum 900)]"

definition status_only :: "int \<Rightarrow> http_outcome" where
  "status_only s = Response \<lparr>status_code = s, body = None, retry_after = NoRetryAfter\<rparr>"

definition ok_with :: "jval \<Rightarrow> http_outcome" where
  "ok_with b = Response \<lparr>status_code = 200, body = Some b, retry_after = NoRetryAfter\<rparr>"



section \<open>Properties of the sleep tracker\<close>

lemma record_error_funpow_errors:
  "consecutive_errors ((record_error ^^ n) t) = consecutive_errors t + int n"
  by (induction n) (simp_all add: record_error_def)

lemma record_error_funpow_state:
  "last_known_state ((record_error ^^ n) t) = last_known_state t"
  by (induction n) (simp_all add: record_error_def)

text \<open>
  Claim C7. \<open>get_poll_interval\<close> returns the larger of the two intervals as soon as the
  error counter is at least 5, whatever the last known state is; this is the case after
  five \<open>record_error\<close> calls that follow an observation of the state online. Below 5 it
  returns the sleep interval for the states asleep, offline and unknown, and the normal
  interval for online.
\<close>

theorem get_poll_interval_cases:
  "(consecutive_errors t \<ge> 5 \<longrightarrow>
      get_poll_interval cfg t =
        max (poll_interval_seconds cfg) (sleep_poll_interval_seconds cfg))
   \<and> get_poll_interval cfg ((record_error ^^ 5) (update_state ''online'' t)) =
        max (poll_interval_seconds cfg) (sleep_poll_interval_seconds cfg)
   \<and> (consecutive_errors t < 5 \<longrightarrow>
        last_known_state t \<in> {''asleep'', ''offline'', ''unknown''} \<longrightarrow>
        get_poll_interval cfg t = sleep_poll_interval_seconds cfg)
   \<and> (consecutive_errors t < 5 \<longrightarrow> last_known_state t = ''online'' \<longrightarrow>
        get_poll_interval cfg t = poll_interval_seconds cfg)"
proof -
  have five: "consecutive_errors ((record_error ^^ 5) (update_state ''online'' t)) = 5"
    by (simp add: record_error_funpow_errors update_state_def)
  show ?thesis
    using five by (auto simp add: get_poll_interval_def)
qed

theorem get_poll_interval_cases_witness:
  "get_poll_interval
      \<lparr>poll_interval_seconds = 300, sleep_poll_interval_seconds = 660,
       wake_on_poll = False, token_file_path = ''/data/tokens/token.json''\<rparr>
      \<lparr>last_known_state = ''online'', last_data_fetch = 0, consecutive_errors = 5\<rparr> = 660
   \<and> get_poll_interval
      \<lparr>poll_interval_seconds = 300, sleep_poll_interval_seconds = 660,
       wake_on_poll = False, token_file_path = ''/data/tokens/token.json''\<rparr>
      \<lparr>last_known_state = ''asleep'', last_data_fetch = 0, consecutive_errors = 4\<rparr> = 660
   \<and> get_poll_interval
      \<lparr>poll_interval_seconds = 300, sleep_poll_interval_seconds = 660,
       wake_on_poll = False, token_file_path = ''/data/tokens/token.json''\<rparr>
      \<lparr>last_known_state = ''online'', last_data_fetch = 0, consecutive_errors = 4\<rparr> = 300"
  using
    get_poll_interval_cases [of
      "\<lparr>last_known_state = ''online'', last_data_fetch = 0, consecutive_errors = 5\<rparr>"
      "\<lparr>poll_interval_seconds = 300, sleep_poll_interval_seconds = 660,
        wake_on_poll = False, token_file_path = ''/data/tokens/token.json''\<rparr>"]
    get_poll_interval_cases [of
      "\<lparr>last_known_state = ''asleep'', last_data_fetch = 0, consecutive_errors = 4\<rparr>"
      "\<lparr>poll_interval_seconds = 300, sleep_poll_interval_seconds = 660,
        wake_on_poll = False, token_file_path = ''/data/tokens/token.json''\<rparr>"]
    get_poll_interval_cases [of
      "\<lparr>last_known_state = ''online'', last_data_fetch = 0, consecutive_errors = 4\<rparr>"
      "\<lparr>poll_interval_seconds = 300, sleep_poll_interval_seconds = 660,
        wake_on_poll = False, token_file_path = ''/data/tokens/token.json''\<rparr>"]
  by simp

text \<open>
  Claim C10. Every \<open>update_state\<close> call leaves the error counter at 0, also when the
  observed state is the one already recorded; whatever number of \<open>record_error\<close>
  increments came before the observation is gone after it.
\<close>

theorem update_state_resets_errors:
  "consecutive_errors (update_state s t) = 0
   \<and> consecutive_errors (update_state (last_known_state t) t) = 0
   \<and> consecutive_errors (update_state s ((record_error ^^ n) t)) = 0
   \<and> last_known_state (update_state s t) = s"
  by (simp add: update_state_def)

section \<open>Properties of the credential manager\<close>

lemma trace_emit [simp]: "trace (emit e w) = trace w @ [e]"
  and token_data_emit [simp]: "token_data (emit e w) = token_data w"
  and files_emit [simp]: "files (emit e w) = files w"
  and clock_emit [simp]: "clock (emit e w) = clock w"
  and auth_net_emit [simp]: "auth_net (emit e w) = auth_net w"
  and api_net_emit [simp]: "api_net (emit e w) = api_net w"
  and io_faults_emit [simp]: "io_faults (emit e w) = io_faults w"
  and tmp_path_emit [simp]: "tmp_path (emit e w) = tmp_path w"
  by (simp_all add: emit_def)

lemma refresh_calls_emit [simp]:
  "refresh_calls (emit e w) = refresh_calls w + (if is_refresh_call e then 1 else 0)"
  by (simp add: refresh_calls_def)

lemma time_sleep_fields [simp]:
  "token_data (time_sleep s d w) = token_data w"
  "files (time_sleep s d w) = files w"
  "auth_net (time_sleep s d w) = auth_net w"
  "api_net (time_sleep s d w) = api_net w"
  "io_faults (time_sleep s d w) = io_faults w"
  "tmp_path (time_sleep s d w) = tmp_path w"
  "clock (time_sleep s d w) = clock w + d"
  "trace (time_sleep s d w) = trace w @ [EvSleep s d]"
  "refresh_calls (time_sleep s d w) = refresh_calls w"
  by (simp_all add: time_sleep_def refresh_calls_def)

lemma save_token_trace: "trace (snd (save_token cfg td w)) = trace w"
  by (simp add: save_token_def unlink_quietly_def Let_def)

lemma save_token_refresh_calls: "refresh_calls (snd (save_token cfg td w)) = refresh_calls w"
  by (simp add: refresh_calls_def save_token_trace)

lemma refresh_attempt_trace:
  "trace (snd (refresh_attempt cfg rt w)) = trace w @ [EvTokenPost rt]"
proof -
  have post: "trace (snd (requests_post rt w)) = trace w @ [EvTokenPost rt]"
    by (simp add: requests_post_def split: list.splits)
  show ?thesis
    using post
    by (auto simp add: refresh_attempt_def save_token_trace
        split: prod.splits http_outcome.splits option.splits sum.splits
        dest: arg_cong [where f = "\<lambda>p. trace (snd p)"])
qed

lemma refresh_attempt_refresh_calls:
  "refresh_calls (snd (refresh_attempt cfg rt w)) = refresh_calls w"
  by (simp add: refresh_calls_def refresh_attempt_trace)

lemma refresh_loop_refresh_calls:
  "refresh_calls (snd (refresh_loop cfg rt attempts b w)) = refresh_calls w"
proof (induction attempts arbitrary: b w)
  case Nil
  then show ?case by (simp add: refresh_calls_def)
next
  case (Cons a attempts)
  have step: "refresh_calls (snd (refresh_attempt cfg rt w)) = refresh_calls w"
    by (rule refresh_attempt_refresh_calls)
  show ?case
    using step Cons.IH
    by (auto split: prod.splits option.splits)
qed

lemma refresh_access_token_refresh_calls:
  "refresh_calls (snd (refresh_access_token cfg w)) = refresh_calls w + 1"
  by (simp add: refresh_access_token_def Let_def refresh_loop_refresh_calls
      split: option.splits)

text \<open>
  Claim C1. With a credential held whose \<open>expires_at\<close> lies more than 300 seconds
  after the current time, reading \<open>access_token\<close> returns the held token and leaves the
  world as it was, so no refresh is entered. Otherwise (within 300 seconds, or past) the
  read does what one call of \<open>refresh_access_token\<close> does, and the trace gains exactly
  one entry into \<open>refresh_access_token\<close>, whether the read then returns or raises.
\<close>

theorem access_token_refresh_policy:
  assumes "token_data w = Some td"
    and "as_number (dict_get td ''expires_at'' (JNum 0)) = Some expires_at"
  shows "(clock w < expires_at - 300 \<longrightarrow>
            access_token cfg w = (Inr (dict_get td ''access_token'' JNull), w)
            \<and> refresh_calls (snd (access_token cfg w)) = refresh_calls w)
       \<and> (\<not> clock w < expires_at - 300 \<longrightarrow>
            snd (access_token cfg w) = snd (refresh_access_token cfg w)
            \<and> refresh_calls (snd (access_token cfg w)) = refresh_calls w + 1)"
proof (intro conjI impI)
  assume fresh: "clock w < expires_at - 300"
  show "access_token cfg w = (Inr (dict_get td ''access_token'' JNull), w)"
    using assms fresh by (simp add: access_token_def is_token_valid_def dict_get_def)
  then show "refresh_calls (snd (access_token cfg w)) = refresh_calls w"
    by simp
next
  assume stale: "\<not> clock w < expires_at - 300"
  show eq: "snd (access_token cfg w) = snd (refresh_access_token cfg w)"
    using assms stale
    by (simp add: access_token_def is_token_valid_def split: prod.splits sum.splits)
  show "refresh_calls (snd (access_token cfg w)) = refresh_calls w + 1"
    by (simp add: eq refresh_access_token_refresh_calls)
qed


theorem access_token_refresh_policy_witness:
  "access_token example_config example_world = (Inr (JStr ''at0''), example_world)
   \<and> refresh_calls (snd (access_token example_config (example_world\<lparr>clock := 4700\<rparr>))) = 1"
proof -
  let ?v = "example_world\<lparr>clock := 4700\<rparr>"
  have h1: "token_data example_world = Some example_token"
    and h1': "token_data ?v = Some example_token"
    by (simp_all add: example_world_def)
  have h2: "as_number (dict_get example_token ''expires_at'' (JNum 0)) = Some 5000"
    by (simp add: example_token_def dict_get_def)
  have fresh: "clock example_world < 5000 - 300" and stale: "\<not> clock ?v < 5000 - 300"
    by (simp_all add: example_world_def)
  have tok: "dict_get example_token ''access_token'' JNull = JStr ''at0''"
    by (simp add: example_token_def dict_get_def)
  have none: "refresh_calls ?v = 0"
    by (simp add: refresh_calls_def example_world_def)
  have a: "access_token example_config example_world = (Inr (JStr ''at0''), example_world)"
    using access_token_refresh_policy [OF h1 h2, of example_config] fresh tok by simp
  have b: "refresh_calls (snd (access_token example_config ?v)) = refresh_calls ?v + 1"
    using access_token_refresh_policy [OF h1' h2, of example_config] stale by blast
  show ?thesis
    using a b none by simp
qed

text \<open>
  Claim C9. A held credential that is expired or inside the 300 second margin and has no
  \<open>refresh_token\<close> key: \<open>refresh_access_token\<close> returns at once and changes nothing
  but the trace, and the read of \<open>access_token\<close> returns the stale token string.
\<close>

theorem access_token_without_refresh_token:
  assumes "token_data w = Some td"
    and "map_of td ''refresh_token'' = None"
    and "map_of td ''access_token'' = Some (JStr s)"
    and "as_number (dict_get td ''expires_at'' (JNum 0)) = Some expires_at"
    and "\<not> clock w < expires_at - 300"
  shows "refresh_access_token cfg w = (Inr (), emit EvRefreshCall w)
       \<and> access_token cfg w = (Inr (JStr s), emit EvRefreshCall w)
       \<and> token_data (snd (access_token cfg w)) = Some td"
proof -
  have r: "refresh_access_token cfg w = (Inr (), emit EvRefreshCall w)"
    using assms(1,2) by (simp add: refresh_access_token_def Let_def)
  have ne: "td \<noteq> []"
    using assms(3) by auto
  have a: "access_token cfg w = (Inr (JStr s), emit EvRefreshCall w)"
    using assms r ne by (simp add: access_token_def is_token_valid_def dict_get_def)
  show ?thesis
    using r a assms(1) by simp
qed

theorem access_token_without_refresh_token_witness:
  "fst (access_token example_config (example_world\<lparr>token_data := Some no_refresh_token\<rparr>))
     = Inr (JStr ''at0'')"
  using access_token_without_refresh_token
    [of "example_world\<lparr>token_data := Some no_refresh_token\<rparr>" no_refresh_token
        "''at0''" 900 example_config]
  by (simp add: example_world_def no_refresh_token_def dict_get_def)

lemma refresh_attempt_failed:
  assumes "auth_net w = [] \<or> (\<exists>x xs. auth_net w = x # xs \<and> failed_attempt x)"
  shows "refresh_attempt cfg rt w = (None, emit (EvTokenPost rt) (w\<lparr>auth_net := tl (auth_net w)\<rparr>))"
proof (cases "auth_net w")
  case Nil
  then show ?thesis
    by (simp add: refresh_attempt_def requests_post_def emit_def)
next
  case (Cons x xs)
  then have "failed_attempt x" using assms by simp
  then show ?thesis
    using Cons by (cases x) (auto simp add: refresh_attempt_def requests_post_def)
qed

lemma refresh_loop_all_failed:
  assumes "\<forall>x \<in> set (take (length attempts) (auth_net w)). failed_attempt x"
  shows "fst (refresh_loop cfg rt attempts b w) = Inr ()
       \<and> token_data (snd (refresh_loop cfg rt attempts b w)) = None
       \<and> files (snd (refresh_loop cfg rt attempts b w)) = files w"
  using assms
proof (induction attempts arbitrary: b w)
  case Nil
  then show ?case by simp
next
  case (Cons a attempts)
  let ?w1 = "emit (EvTokenPost rt) (w\<lparr>auth_net := tl (auth_net w)\<rparr>)"
  have hd_failed: "auth_net w = [] \<or> (\<exists>x xs. auth_net w = x # xs \<and> failed_attempt x)"
    using Cons.prems by (cases "auth_net w") auto
  have step: "refresh_attempt cfg rt w = (None, ?w1)"
    using hd_failed by (rule refresh_attempt_failed)
  have rest: "\<forall>x \<in> set (take (length attempts) (tl (auth_net w))). failed_attempt x"
    using Cons.prems by (cases "auth_net w") auto
  have rest1: "\<forall>x \<in> set (take (length attempts) (auth_net ?w1)). failed_attempt x"
    using rest by simp
  have rest2: "\<forall>x \<in> set (take (length attempts)
                 (auth_net (time_sleep RefreshBackoff (real_of_int (min b 60)) ?w1))).
               failed_attempt x"
    using rest by simp
  show ?case
    using Cons.IH [OF rest1] Cons.IH [OF rest2] step by simp
qed

text \<open>
  Claim C4. When the five attempts of a refresh all fail, the refresh returns with no
  credential held; from then on every read of \<open>access_token\<close> returns \<open>None\<close> and
  leaves the state without credential, however many reads follow.
\<close>

theorem refresh_exhausted_discards_credential:
  assumes "token_data w = Some td"
    and "map_of td ''refresh_token'' = Some rt"
    and "\<forall>x \<in> set (take 5 (auth_net w)). failed_attempt x"
  shows "fst (refresh_access_token cfg w) = Inr ()
       \<and> token_data (snd (refresh_access_token cfg w)) = None
       \<and> (\<forall>n. fst (access_token cfg
                 (((\<lambda>v. snd (access_token cfg v)) ^^ n) (snd (refresh_access_token cfg w))))
               = Inr JNull)
       \<and> (\<forall>n. token_data
                 (((\<lambda>v. snd (access_token cfg v)) ^^ n) (snd (refresh_access_token cfg w)))
               = None)"
proof -
  let ?w0 = "emit EvRefreshCall w"
  let ?w' = "snd (refresh_access_token cfg w)"
  have len: "length [0..<nat refresh_max_retries] = 5"
    by (simp add: refresh_max_retries_def)
  have "\<forall>x \<in> set (take (length [0..<nat refresh_max_retries]) (auth_net ?w0)). failed_attempt x"
    using assms(3) by (simp only: len auth_net_emit)
  then have loop: "fst (refresh_loop cfg rt [0..<nat refresh_max_retries] 1 ?w0) = Inr ()
       \<and> token_data (snd (refresh_loop cfg rt [0..<nat refresh_max_retries] 1 ?w0)) = None"
    using refresh_loop_all_failed by blast
  have unfold: "refresh_access_token cfg w = refresh_loop cfg rt [0..<nat refresh_max_retries] 1 ?w0"
    using assms(1,2) by (simp add: refresh_access_token_def Let_def)
  have gone: "token_data ?w' = None" and ok: "fst (refresh_access_token cfg w) = Inr ()"
    using loop unfold by simp_all
  have read: "access_token cfg v = (Inr JNull, v)" if "token_data v = None" for v
    using that by (simp add: access_token_def)
  have stay: "((\<lambda>v. snd (access_token cfg v)) ^^ n) ?w' = ?w'" for n
    by (induction n) (simp_all add: read gone)
  show ?thesis
    using ok gone by (simp add: stay read)
qed

theorem refresh_exhausted_discards_credential_witness:
  "token_data (snd (refresh_access_token example_config
       (example_world\<lparr>auth_net := replicate 5 (status_only 401)\<rparr>))) = None
   \<and> fst (access_token example_config (snd (refresh_access_token example_config
       (example_world\<lparr>auth_net := replicate 5 (status_only 401)\<rparr>)))) = Inr JNull"
proof -
  let ?w = "example_world\<lparr>auth_net := replicate 5 (status_only 401)\<rparr>"
  have h1: "token_data ?w = Some example_token"
    by (simp add: example_world_def)
  have h2: "map_of example_token ''refresh_token'' = Some (JStr ''rt0'')"
    by (simp add: example_token_def)
  have h3: "\<forall>x \<in> set (take 5 (auth_net ?w)). failed_attempt x"
    by (simp add: status_only_def)
  from refresh_exhausted_discards_credential [OF h1 h2 h3, of example_config]
  have "token_data (snd (refresh_access_token example_config ?w)) = None"
    and "\<forall>n. fst (access_token example_config
                 (((\<lambda>v. snd (access_token example_config v)) ^^ n)
                    (snd (refresh_access_token example_config ?w)))) = Inr JNull"
    by blast+
  from this(1) this(2) [rule_format, of 0] show ?thesis by simp
qed

lemma save_token_fields:
  "clock (snd (save_token cfg td w)) = clock w"
  "auth_net (snd (save_token cfg td w)) = auth_net w"
  "api_net (snd (save_token cfg td w)) = api_net w"
  "io_faults (snd (save_token cfg td w)) = io_faults w"
  by (simp_all add: save_token_def unlink_quietly_def Let_def)







lemma new_token_data_partial:
  assumes "map_of d ''access_token'' = None \<or> map_of d ''refresh_token'' = None"
  shows "\<exists>k. new_token_data (JObj d) now = Inl (KeyError k)"
  using assms by (auto simp add: new_token_data_def split: option.splits)

lemma refresh_attempt_partial:
  assumes "auth_net w = Response r # post"
    and "status_code r = 200"
    and "body r = Some (JObj d)"
    and "map_of d ''access_token'' = None \<or> map_of d ''refresh_token'' = None"
  shows "\<exists>k. refresh_attempt cfg rt w =
           (Some (Inl (KeyError k)), emit (EvTokenPost rt) (w\<lparr>auth_net := post\<rparr>))"
proof -
  obtain k where "new_token_data (JObj d) (clock w) = Inl (KeyError k)"
    using new_token_data_partial [OF assms(4)] by blast
  then show ?thesis
    using assms(1-3) by (simp add: refresh_attempt_def requests_post_def)
qed

lemma refresh_loop_partial:
  assumes "auth_net w = pre @ Response r # post"
    and "length pre < length attempts"
    and "\<forall>x \<in> set pre. failed_attempt x"
    and "status_code r = 200"
    and "body r = Some (JObj d)"
    and "map_of d ''access_token'' = None \<or> map_of d ''refresh_token'' = None"
  shows "(\<exists>k. fst (refresh_loop cfg rt attempts b w) = Inl (KeyError k))
       \<and> files (snd (refresh_loop cfg rt attempts b w)) = files w
       \<and> token_data (snd (refresh_loop cfg rt attempts b w)) = token_data w"
  using assms(1-3)
proof (induction pre arbitrary: attempts b w)
  case Nil
  then obtain a rest where att: "attempts = a # rest"
    by (cases attempts) auto
  from Nil have net: "auth_net w = Response r # post" by simp
  obtain k where "refresh_attempt cfg rt w =
           (Some (Inl (KeyError k)), emit (EvTokenPost rt) (w\<lparr>auth_net := post\<rparr>))"
    using refresh_attempt_partial [OF net assms(4-6)] by blast
  then show ?case
    by (simp add: att)
next
  case (Cons x pre)
  then obtain a rest where att: "attempts = a # rest" and len: "length pre < length rest"
    by (cases attempts) auto
  let ?w1 = "emit (EvTokenPost rt) (w\<lparr>auth_net := tl (auth_net w)\<rparr>)"
  have "auth_net w = x # (pre @ Response r # post)" and "failed_attempt x"
    using Cons.prems by simp_all
  then have step: "refresh_attempt cfg rt w = (None, ?w1)"
    by (intro refresh_attempt_failed) simp
  have net1: "auth_net ?w1 = pre @ Response r # post"
    using Cons.prems(1) by simp
  have net2: "auth_net (time_sleep RefreshBackoff (real_of_int (min b 60)) ?w1)
              = pre @ Response r # post"
    using Cons.prems(1) by simp
  have rest: "\<forall>x \<in> set pre. failed_attempt x"
    using Cons.prems(3) by simp
  show ?case
    using Cons.IH [OF net1 len rest] Cons.IH [OF net2 len rest] step
    by (simp add: att)
qed

text \<open>
  Claim C3. In a refresh whose first 200 response, after fewer than five failed attempts,
  carries an object without \<open>access_token\<close> or without \<open>refresh_token\<close>, the
  subscript raises \<open>KeyError\<close>: no file is written and the held credential stays.
\<close>

theorem refresh_partial_response_not_saved:
  assumes "token_data w = Some td"
    and "map_of td ''refresh_token'' = Some rt"
    and "auth_net w = pre @ Response r # post"
    and "length pre < 5"
    and "\<forall>x \<in> set pre. failed_attempt x"
    and "status_code r = 200"
    and "body r = Some (JObj d)"
    and "map_of d ''access_token'' = None \<or> map_of d ''refresh_token'' = None"
  shows "(\<exists>k. fst (refresh_access_token cfg w) = Inl (KeyError k))
       \<and> files (snd (refresh_access_token cfg w)) = files w
       \<and> token_data (snd (refresh_access_token cfg w)) = Some td"
proof -
  let ?w0 = "emit EvRefreshCall w"
  have unfold: "refresh_access_token cfg w = refresh_loop cfg rt [0..<nat refresh_max_retries] 1 ?w0"
    using assms(1,2) by (simp add: refresh_access_token_def Let_def)
  have net: "auth_net ?w0 = pre @ Response r # post"
    using assms(3) by simp
  have len: "length pre < length [0..<nat refresh_max_retries]"
    using assms(4) by (simp add: refresh_max_retries_def)
  show ?thesis
    using refresh_loop_partial [OF net len assms(5-8), of cfg rt 1] assms(1)
    by (simp add: unfold)
qed

theorem refresh_partial_response_not_saved_witness:
  "files (snd (refresh_access_token example_config
      (example_world\<lparr>auth_net := [status_only 503, ok_with (JObj [(''access_token'', JStr ''at1'')])]\<rparr>)))
   = files example_world
   \<and> fst (refresh_access_token example_config
      (example_world\<lparr>auth_net := [status_only 503, ok_with (JObj [(''access_token'', JStr ''at1'')])]\<rparr>))
   = Inl (KeyError ''refresh_token'')"
proof -
  let ?r = "\<lparr>status_code = 200, body = Some (JObj [(''access_token'', JStr ''at1'')]),
             retry_after = NoRetryAfter\<rparr>"
  let ?w = "example_world\<lparr>auth_net := [status_only 503, ok_with (JObj [(''access_token'', JStr ''at1'')])]\<rparr>"
  have h1: "token_data ?w = Some example_token"
    by (simp add: example_world_def)
  have h2: "map_of example_token ''refresh_token'' = Some (JStr ''rt0'')"
    by (simp add: example_token_def)
  have h3: "auth_net ?w = [status_only 503] @ Response ?r # []"
    by (simp add: ok_with_def)
  have h4: "length [status_only 503] < 5" by simp
  have h5: "\<forall>x \<in> set [status_only 503]. failed_attempt x"
    by (simp add: status_only_def)
  have h6: "status_code ?r = 200" and h7: "body ?r = Some (JObj [(''access_token'', JStr ''at1'')])"
    by simp_all
  have h8: "map_of [(''access_token'', JStr ''at1'')] ''access_token'' = None
            \<or> map_of [(''access_token'', JStr ''at1'')] ''refresh_token'' = None"
    by simp
  have files: "files ?w = files example_world" by simp
  have k: "fst (refresh_access_token example_config ?w) = Inl (KeyError ''refresh_token'')"
    by (simp add: refresh_access_token_def refresh_max_retries_def upt_rec refresh_attempt_def
        requests_post_def new_token_data_def example_world_def example_token_def
        status_only_def ok_with_def)
  from refresh_partial_response_not_saved [OF h1 h2 h3 h4 h5 h6 h7 h8, of example_config] files k
  show ?thesis by simp
qed

section \<open>Properties of the API client\<close>

lemma sleeps_at_append:
  "sleeps_at site (xs @ ys) = sleeps_at site xs @ sleeps_at site ys"
  by (induction site xs rule: sleeps_at.induct) simp_all

lemma api_requests_emit [simp]:
  "api_requests (emit e w) = api_requests w + (if is_api_request e then 1 else 0)"
  by (simp add: api_requests_def)

lemma api_requests_time_sleep [simp]:
  "api_requests (time_sleep s d w) = api_requests w"
  by (simp add: api_requests_def)

lemma counts_api_net_update [simp]:
  "refresh_calls (w\<lparr>api_net := xs\<rparr>) = refresh_calls w"
  "api_requests (w\<lparr>api_net := xs\<rparr>) = api_requests w"
  by (simp_all add: refresh_calls_def api_requests_def)

lemma access_token_fresh:
  assumes "token_data w = Some td"
    and "as_number (dict_get td ''expires_at'' (JNum 0)) = Some expires_at"
    and "clock w < expires_at - 300"
  shows "access_token cfg w = (Inr (dict_get td ''access_token'' JNull), w)"
  using assms by (simp add: access_token_def is_token_valid_def dict_get_def)

lemma session_request_cons:
  assumes "api_net w = x # xs"
  shows "session_request token w = (x, emit (EvApiRequest token) (w\<lparr>api_net := xs\<rparr>))"
  using assms by (simp add: session_request_def)

lemma request_attempts: "[0..<nat request_max_retries] = [0, 1, 2]"
  by (simp add: request_max_retries_def upt_rec)

text \<open>
  Claim C6. With a credential that stays fresh for the next three seconds and the API
  answering 500, 500, 200, \<open>_request\<close> returns the parsed body of the third response
  after three requests, having slept 1 second after the first 500 and 2 seconds after
  the second: the delays \<open>min(backoff, 60)\<close> of a backoff that starts at 1 and doubles.
\<close>

theorem request_500_500_200:
  assumes "token_data w = Some td"
    and "as_number (dict_get td ''expires_at'' (JNum 0)) = Some expires_at"
    and "clock w + 3 < expires_at - 300"
    and "dict_get td ''access_token'' JNull = tok"
    and "tok \<noteq> JNull"
    and "api_net w = Response r1 # Response r2 # Response r3 # rest"
    and "status_code r1 = 500"
    and "status_code r2 = 500"
    and "status_code r3 = 200"
    and "body r3 = Some data"
  shows "fst (request cfg w) = Inr data
       \<and> trace (snd (request cfg w)) =
           trace w @ [EvApiRequest tok, EvSleep RequestBackoff 1, EvApiRequest tok,
                      EvSleep RequestBackoff 2, EvApiRequest tok]
       \<and> sleeps_at RequestBackoff (trace (snd (request cfg w))) =
           sleeps_at RequestBackoff (trace w) @ map (\<lambda>k. real_of_int (min (2 ^ k) 60)) [0, 1]
       \<and> clock (snd (request cfg w)) = clock w + 3
       \<and> api_net (snd (request cfg w)) = rest
       \<and> token_data (snd (request cfg w)) = Some td"
proof -
  let ?w1 = "emit (EvApiRequest tok) (w\<lparr>api_net := Response r2 # Response r3 # rest\<rparr>)"
  let ?w2 = "time_sleep RequestBackoff 1 ?w1"
  let ?w3 = "emit (EvApiRequest tok) (?w2\<lparr>api_net := Response r3 # rest\<rparr>)"
  let ?w4 = "time_sleep RequestBackoff 2 ?w3"
  let ?w5 = "emit (EvApiRequest tok) (?w4\<lparr>api_net := rest\<rparr>)"
  have a0: "access_token cfg w = (Inr tok, w)"
    using access_token_fresh [OF assms(1,2), of cfg] assms(3,4) by simp
  have s0: "session_request tok w = (Response r1, ?w1)"
    using assms(6) by (rule session_request_cons)
  have b0: "request_backoff 0 1 ?w1 = (2, ?w2)"
    by (simp add: request_backoff_def request_max_retries_def)
  have a2: "access_token cfg ?w2 = (Inr tok, ?w2)"
    using access_token_fresh [of ?w2 td expires_at cfg] assms(1-4) by simp
  have s2: "session_request tok ?w2 = (Response r2, ?w3)"
    by (rule session_request_cons) simp
  have b1: "request_backoff 1 2 ?w3 = (4, ?w4)"
    by (simp add: request_backoff_def request_max_retries_def)
  have a4: "access_token cfg ?w4 = (Inr tok, ?w4)"
    using access_token_fresh [of ?w4 td expires_at cfg] assms(1-4) by simp
  have s4: "session_request tok ?w4 = (Response r3, ?w5)"
    by (rule session_request_cons) simp
  have third: "request_loop cfg [2] 4 ?w4 = (Inr data, ?w5)"
    using a4 s4 assms(5,9,10) by simp
  have second: "request_loop cfg [1, 2] 2 ?w2 = (Inr data, ?w5)"
    using a2 s2 b1 third assms(5,8) by simp
  have first: "request_loop cfg [0, 1, 2] 1 w = (Inr data, ?w5)"
    using a0 s0 b0 second assms(5,7) by simp
  have run: "request cfg w = (Inr data, ?w5)"
    by (simp only: request_def request_attempts first)
  show ?thesis
    using assms(1) by (simp add: run sleeps_at_append)
qed


text \<open>
  A refresh sends no API request, consumes no API response and sleeps only at its own
  call site.
\<close>

lemma client_view_emit:
  assumes "\<not> is_api_request e" and "\<forall>s d. e = EvSleep s d \<longrightarrow> s = RefreshBackoff"
  shows "api_requests (emit e w) = api_requests w
       \<and> sleeps_at RequestBackoff (trace (emit e w)) = sleeps_at RequestBackoff (trace w)
       \<and> sleeps_at RateLimitWait (trace (emit e w)) = sleeps_at RateLimitWait (trace w)"
  using assms by (cases e) (auto simp add: sleeps_at_append)

lemma save_token_client_view:
  "api_net (snd (save_token cfg td w)) = api_net w
   \<and> api_requests (snd (save_token cfg td w)) = api_requests w
   \<and> sleeps_at site (trace (snd (save_token cfg td w))) = sleeps_at site (trace w)"
  by (simp add: save_token_fields save_token_trace api_requests_def)











theorem request_500_500_200_witness:
  "fst (request example_config
     (example_world\<lparr>api_net := [status_only 500, status_only 500, ok_with (JStr ''ok'')]\<rparr>))
     = Inr (JStr ''ok'')
   \<and> sleeps_at RequestBackoff (trace (snd (request example_config
     (example_world\<lparr>api_net := [status_only 500, status_only 500, ok_with (JStr ''ok'')]\<rparr>))))
     = [1, 2]"
proof -
  let ?w = "example_world\<lparr>api_net := [status_only 500, status_only 500, ok_with (JStr ''ok'')]\<rparr>"
  let ?r = "\<lparr>status_code = 500, body = None, retry_after = NoRetryAfter\<rparr>"
  let ?r3 = "\<lparr>status_code = 200, body = Some (JStr ''ok''), retry_after = NoRetryAfter\<rparr>"
  have h1: "token_data ?w = Some example_token"
    by (simp add: example_world_def)
  have h2: "as_number (dict_get example_token ''expires_at'' (JNum 0)) = Some 5000"
    by (simp add: example_token_def dict_get_def)
  have h3: "clock ?w + 3 < 5000 - 300"
    by (simp add: example_world_def)
  have h4: "dict_get example_token ''access_token'' JNull = JStr ''at0''"
    by (simp add: example_token_def dict_get_def)
  have h5: "JStr ''at0'' \<noteq> JNull" by simp
  have h6: "api_net ?w = Response ?r # Response ?r # Response ?r3 # []"
    by (simp add: status_only_def ok_with_def)
  have h7: "status_code ?r = 500" and h9: "status_code ?r3 = 200"
    and h10: "body ?r3 = Some (JStr ''ok'')"
    by simp_all
  have t: "trace ?w = []"
    by (simp add: example_world_def)
  from request_500_500_200 [OF h1 h2 h3 h4 h5 h6 h7 h7 h9 h10, of example_config] t
  show ?thesis by simp
qed

end
